theory Spec2Isabelle
  imports Main "HOL-Library.AList"
begin

section \<open>Data model of the interview engine (services/temp.py)\<close>

text \<open>
  Values decoded by \<^verbatim>\<open>json.loads\<close>. A JSON object is a Python dict: its members in
  insertion order, keys pairwise distinct. Numbers play no part in the code modelled here.
\<close>

datatype json =
    JNull
  | JBool bool
  | JNum int
  | JStr string
  | JArr "json list"
  | JObj "(string \<times> json) list"

text \<open>A Python dict with string keys, as the list of its items in insertion order.\<close>

type_synonym pydict = "(string \<times> json) list"

definition keys :: "pydict \<Rightarrow> string list" where
  "keys d = map fst d"

text \<open>\<^verbatim>\<open>d.get(k, default)\<close>\<close>

definition dict_get :: "pydict \<Rightarrow> string \<Rightarrow> json \<Rightarrow> json" where
  "dict_get d k dflt = (case map_of d k of None \<Rightarrow> dflt | Some v \<Rightarrow> v)"

text \<open>\<^verbatim>\<open>d[k] = v\<close>: an existing key keeps its position, a new key goes last.\<close>

definition dict_set :: "pydict \<Rightarrow> string \<Rightarrow> json \<Rightarrow> pydict" where
  "dict_set d k v = AList.update k v d"

text \<open>One entry of the issue catalog; the code reads exactly these five keys.\<close>

record issue =
  field :: string
  question :: string
  category :: string
  importance :: string
  status :: string

text \<open>One entry of \<^verbatim>\<open>chat_history\<close>.\<close>

record msg =
  role :: string
  message :: string

text \<open>
  \<^verbatim>\<open>interview_data\<close>. Every key is read with \<^verbatim>\<open>.get(key, default)\<close>, so each may be
  absent.
\<close>

record interview_data =
  company_name :: "string option"
  sector :: "string option"
  founder_name :: "string option"
  issues :: "issue list option"
  gathered_info :: "pydict option"
  cannot_answer_fields :: "string list option"

text \<open>The dict returned by \<^verbatim>\<open>analyze_and_extract\<close>.\<close>

record completion_check =
  is_complete :: bool
  gathered_info :: pydict
  still_pending :: "string list"
  cannot_answer_fields :: "string list"

text \<open>The dict returned by \<^verbatim>\<open>chat_with_founder\<close>.\<close>

record chat_result =
  message :: string
  is_complete :: bool
  gathered_info :: pydict
  cannot_answer_fields :: "string list"

text \<open>
  What is sent to the reasoning service. The fixed wording of the three prompts is left
  out; the constructors keep the values interpolated into each of them.
\<close>

datatype prompt =
    ClosingPrompt (p_founder: string) (p_company: string) (p_total: nat) (p_answered: nat)
      (p_couldnt: nat) (p_last_message: string)
  | ContinuationPrompt (p_founder: string) (p_company: string) (p_sector: string)
      (p_progress: nat) (p_total: nat) (p_last_message: string) (p_dont_know: "string list")
      (p_q1: string) (p_q2: string) (p_q3: string) (p_recent: "msg list")
  | AnalysisPrompt (p_fields_needed: "issue list") (p_already_have: "string list")
      (p_conversation: "string list")

text \<open>
  The outcome of one \<^verbatim>\<open>client.models.generate_content\<close> call: the call raises (transport
  error, timeout), the response is \<^verbatim>\<open>None\<close> or carries no text, or it carries a text.
\<close>

datatype svc_response = Raises | NoText | Text string

datatype error = ServiceError | ValueError | JSONDecodeError | AttributeError | TypeError

section \<open>String helpers\<close>

text \<open>
  \<^verbatim>\<open>str.isspace\<close> on the code points below 256, and \<^verbatim>\<open>str.strip()\<close>.
\<close>

definition isspace :: "char \<Rightarrow> bool" where
  "isspace c = (of_char c \<in> {9, 10, 11, 12, 13, 28, 29, 30, 31, 32, 133, 160 :: nat})"

definition strip :: "string \<Rightarrow> string" where
  "strip s = rev (dropWhile isspace (rev (dropWhile isspace s)))"

definition endswith :: "string \<Rightarrow> string \<Rightarrow> bool" where
  "endswith s p = (length p \<le> length s \<and> drop (length s - length p) s = p)"

text \<open>\<^verbatim>\<open>xs[-n:]\<close> for a positive \<open>n\<close>.\<close>

definition last_n :: "nat \<Rightarrow> 'a list \<Rightarrow> 'a list" where
  "last_n n xs = drop (length xs - n) xs"

section \<open>Reading interview_data\<close>

text \<open>Lines 22--27: each key with its default.\<close>

definition get_company_name :: "interview_data \<Rightarrow> string" where
  "get_company_name d = (case company_name d of None \<Rightarrow> ''your startup'' | Some s \<Rightarrow> s)"

definition get_sector :: "interview_data \<Rightarrow> string" where
  "get_sector d = (case sector d of None \<Rightarrow> ''your industry'' | Some s \<Rightarrow> s)"

definition get_founder_name :: "interview_data \<Rightarrow> string" where
  "get_founder_name d = (case founder_name d of None \<Rightarrow> ''Founder'' | Some s \<Rightarrow> s)"

definition get_issues :: "interview_data \<Rightarrow> issue list" where
  "get_issues d = (case issues d of None \<Rightarrow> [] | Some x \<Rightarrow> x)"

definition get_gathered_info :: "interview_data \<Rightarrow> pydict" where
  "get_gathered_info d = (case interview_data.gathered_info d of None \<Rightarrow> [] | Some x \<Rightarrow> x)"

definition get_cannot_answer_fields :: "interview_data \<Rightarrow> string list" where
  "get_cannot_answer_fields d =
     (case interview_data.cannot_answer_fields d of None \<Rightarrow> [] | Some x \<Rightarrow> x)"

section \<open>chat_with_founder: selection of the next questions and reply\<close>

definition all_issue_fields :: "issue list \<Rightarrow> string list" where
  "all_issue_fields iss = map field iss"

definition gathered_issue_fields :: "issue list \<Rightarrow> pydict \<Rightarrow> string list" where
  "gathered_issue_fields iss gathered =
     filter (\<lambda>f. f \<in> set (all_issue_fields iss)) (keys gathered)"

definition still_needed :: "issue list \<Rightarrow> pydict \<Rightarrow> string list \<Rightarrow> issue list" where
  "still_needed iss gathered cannot =
     filter (\<lambda>i. field i \<notin> set (gathered_issue_fields iss gathered) \<and> field i \<notin> set cannot) iss"

definition next_questions :: "issue list \<Rightarrow> pydict \<Rightarrow> string list \<Rightarrow> string list" where
  "next_questions iss gathered cannot = map question (take 3 (still_needed iss gathered cannot))"

definition will_be_closing :: "issue list \<Rightarrow> pydict \<Rightarrow> string list \<Rightarrow> bool" where
  "will_be_closing iss gathered cannot = (length (still_needed iss gathered cannot) \<le> 0)"

text \<open>Lines 147--152: the question-mark rule applied to a continuation reply.\<close>

definition ensure_question :: "string \<Rightarrow> string" where
  "ensure_question ai_message =
     (if \<not> endswith ai_message ''?'' then
        if \<not> (\<exists>p \<in> set [''?'', ''!'', ''.'']. endswith ai_message p) then ai_message @ ''?''
        else if endswith ai_message ''.'' then
          if CHR ''?'' \<notin> set ai_message then butlast ai_message @ ''?'' else ai_message
        else ai_message
      else ai_message)"

section \<open>analyze_and_extract\<close>

text \<open>
  The merge loop of lines 279--283 over the items of \<^verbatim>\<open>result['extracted']\<close>.
  \<^verbatim>\<open>data.get\<close> raises AttributeError when \<open>data\<close> is not a dict; it is only reached for
  a catalog field.
\<close>

fun merge_extracted :: "string list \<Rightarrow> pydict \<Rightarrow> (string \<times> json) list \<Rightarrow> error + pydict" where
  "merge_extracted flds merged [] = Inr merged"
| "merge_extracted flds merged ((f, data) # rest) =
     (if f \<in> set flds then
        (case data of
           JObj kvs \<Rightarrow>
             if dict_get kvs ''confidence'' JNull \<in> set [JStr ''high'', JStr ''medium'']
             then merge_extracted flds (dict_set merged f data) rest
             else merge_extracted flds merged rest
         | _ \<Rightarrow> Inl AttributeError)
      else merge_extracted flds merged rest)"

text \<open>
  Iterating a decoded value, as the comprehension of line 286 does: a list yields its
  elements, a string its characters, a dict its keys; anything else raises TypeError.
\<close>

fun py_iter :: "json \<Rightarrow> error + json list" where
  "py_iter (JArr xs) = Inr xs"
| "py_iter (JStr s) = Inr (map (\<lambda>c. JStr [c]) s)"
| "py_iter (JObj kvs) = Inr (map (\<lambda>kv. JStr (fst kv)) kvs)"
| "py_iter _ = Inl TypeError"

text \<open>\<^verbatim>\<open>[f for f in declared if f in all_issue_fields]\<close>: only a string equals a field name.\<close>

fun catalog_matches :: "string list \<Rightarrow> json list \<Rightarrow> string list" where
  "catalog_matches flds [] = []"
| "catalog_matches flds (JStr s # rest) =
     (if s \<in> set flds then s # catalog_matches flds rest else catalog_matches flds rest)"
| "catalog_matches flds (_ # rest) = catalog_matches flds rest"

definition analysis_prompt :: "issue list \<Rightarrow> pydict \<Rightarrow> msg list \<Rightarrow> prompt" where
  "analysis_prompt iss gathered chat_history =
     (let conversation =
            map (\<lambda>m. (if role m = ''assistant'' then ''Analyst'' else ''Founder'') @ '': '' @ msg.message m)
                (last_n 10 chat_history);
          fields_needed = filter (\<lambda>i. field i \<notin> set (keys gathered)) iss
      in AnalysisPrompt (take 10 fields_needed)
           (filter (\<lambda>f. f \<in> set (all_issue_fields iss)) (keys gathered))
           (last_n 4 conversation))"

text \<open>
  The body of the \<^verbatim>\<open>try\<close> block, lines 257--308. \<open>loads\<close> is \<^verbatim>\<open>json.loads\<close>, with
  \<open>None\<close> for a JSONDecodeError.
\<close>

definition extract_try ::
  "(prompt \<Rightarrow> svc_response) \<Rightarrow> (string \<Rightarrow> json option) \<Rightarrow> issue list \<Rightarrow> pydict \<Rightarrow> string list
     \<Rightarrow> msg list \<Rightarrow> error + completion_check" where
  "extract_try client loads iss gathered existing_cannot_answer chat_history =
     (case client (analysis_prompt iss gathered chat_history) of
        Raises \<Rightarrow> Inl ServiceError
      | NoText \<Rightarrow> Inl ValueError
      | Text text \<Rightarrow>
          let response_text = strip text in
          if response_text = [] then Inl ValueError
          else
            (case loads response_text of
               None \<Rightarrow> Inl JSONDecodeError
             | Some (JObj result) \<Rightarrow>
                 (case dict_get result ''extracted'' (JObj []) of
                    JObj extracted \<Rightarrow>
                      (case merge_extracted (all_issue_fields iss) gathered extracted of
                         Inl e \<Rightarrow> Inl e
                       | Inr merged \<Rightarrow>
                           (case py_iter (dict_get result ''cannot_answer'' (JArr [])) of
                              Inl e \<Rightarrow> Inl e
                            | Inr declared \<Rightarrow>
                                let new_cannot_answer = catalog_matches (all_issue_fields iss) declared;
                                    gathered_count =
                                      length (filter (\<lambda>f. f \<in> set (all_issue_fields iss)) (keys merged));
                                    total_cannot_answer =
                                      card (set (existing_cannot_answer @ new_cannot_answer));
                                    total_attempted = gathered_count + total_cannot_answer;
                                    total_issues = length (all_issue_fields iss)
                                in Inr \<lparr>completion_check.is_complete = (total_attempted \<ge> total_issues),
                                        completion_check.gathered_info = merged,
                                        still_pending =
                                          filter (\<lambda>f. f \<notin> set (keys merged) \<and> f \<notin> set existing_cannot_answer)
                                            (all_issue_fields iss),
                                        completion_check.cannot_answer_fields = new_cannot_answer\<rparr>))
                  | _ \<Rightarrow> Inl AttributeError)
             | Some _ \<Rightarrow> Inl AttributeError))"

definition analyze_and_extract ::
  "(prompt \<Rightarrow> svc_response) \<Rightarrow> (string \<Rightarrow> json option) \<Rightarrow> issue list \<Rightarrow> pydict \<Rightarrow> string list
     \<Rightarrow> msg list \<Rightarrow> completion_check" where
  "analyze_and_extract client loads iss gathered existing_cannot_answer chat_history =
     (let user_messages = filter (\<lambda>m. role m = ''user'') chat_history in
      if length user_messages < 2 then
        \<lparr>completion_check.is_complete = False,
         completion_check.gathered_info = gathered,
         still_pending = map field iss,
         completion_check.cannot_answer_fields = []\<rparr>
      else
        (case extract_try client loads iss gathered existing_cannot_answer chat_history of
           Inr r \<Rightarrow> r
         | Inl e \<Rightarrow>
             \<lparr>completion_check.is_complete = False,
              completion_check.gathered_info = gathered,
              still_pending = map field (filter (\<lambda>i. field i \<notin> set (keys gathered)) iss),
              completion_check.cannot_answer_fields = []\<rparr>))"

section \<open>chat_with_founder\<close>

definition closing :: "interview_data \<Rightarrow> bool" where
  "closing d =
     will_be_closing (get_issues d) (get_gathered_info d) (get_cannot_answer_fields d)"

definition chat_prompt :: "interview_data \<Rightarrow> string \<Rightarrow> msg list \<Rightarrow> prompt" where
  "chat_prompt d user_message chat_history =
     (let iss = get_issues d;
          gathered = get_gathered_info d;
          cannot = get_cannot_answer_fields d;
          recent_context = (if length chat_history > 10 then last_n 10 chat_history else chat_history);
          nq = next_questions iss gathered cannot
      in if closing d then
           ClosingPrompt (get_founder_name d) (get_company_name d) (length (all_issue_fields iss))
             (length (gathered_issue_fields iss gathered)) (length cannot) user_message
         else
           ContinuationPrompt (get_founder_name d) (get_company_name d) (get_sector d)
             (length (gathered_issue_fields iss gathered) + length cannot)
             (length (all_issue_fields iss)) user_message (take 5 cannot)
             (if length nq > 0 then nq ! 0 else ''Tell me about your financials?'')
             (if length nq > 1 then nq ! 1 else ''Tell me about your team?'')
             (if length nq > 2 then nq ! 2 else ''Tell me about your market?'')
             (last_n 6 recent_context))"

text \<open>The \<^verbatim>\<open>except\<close> branch of lines 154--160.\<close>

definition fallback_message :: "interview_data \<Rightarrow> string" where
  "fallback_message d =
     (if closing d then
        ''Thank you so much for your time, '' @ get_founder_name d
          @ ''! We've gathered excellent insights about '' @ get_company_name d
          @ ''. I'll update our investment memo and get back to you within 2-3 weeks with our feedback. Best of luck with everything!''
      else
        (let next_q =
               (case still_needed (get_issues d) (get_gathered_info d) (get_cannot_answer_fields d) of
                  [] \<Rightarrow> ''What else can you tell me?''
                | i # _ \<Rightarrow> question i)
         in ''Thanks for sharing! '' @ next_q))"

text \<open>The \<^verbatim>\<open>try\<close> block of lines 126--152.\<close>

definition generate_reply ::
  "(prompt \<Rightarrow> svc_response) \<Rightarrow> interview_data \<Rightarrow> string \<Rightarrow> msg list \<Rightarrow> error + string" where
  "generate_reply client d user_message chat_history =
     (case client (chat_prompt d user_message chat_history) of
        Raises \<Rightarrow> Inl ServiceError
      | NoText \<Rightarrow> Inl ValueError
      | Text text \<Rightarrow>
          let ai_message = strip text in
          if ai_message = [] then Inl ValueError
          else if \<not> closing d then Inr (ensure_question ai_message)
          else Inr ai_message)"

definition chat_with_founder ::
  "(prompt \<Rightarrow> svc_response) \<Rightarrow> (string \<Rightarrow> json option) \<Rightarrow> interview_data \<Rightarrow> string \<Rightarrow> msg list
     \<Rightarrow> chat_result" where
  "chat_with_founder client loads d user_message chat_history =
     (let ai_message = (case generate_reply client d user_message chat_history of
                          Inr m \<Rightarrow> m
                        | Inl e \<Rightarrow> fallback_message d);
          check = analyze_and_extract client loads (get_issues d) (get_gathered_info d)
                    (get_cannot_answer_fields d)
                    (chat_history @ [\<lparr>role = ''user'', msg.message = user_message\<rparr>,
                                     \<lparr>role = ''assistant'', msg.message = ai_message\<rparr>])
      in \<lparr>chat_result.message = ai_message,
          chat_result.is_complete = completion_check.is_complete check,
          chat_result.gathered_info = completion_check.gathered_info check,
          chat_result.cannot_answer_fields = completion_check.cannot_answer_fields check\<rparr>)"

section \<open>Failure of the reasoning service\<close>

text \<open>
  A generation call fails when it raises, carries no text, or carries only white space.
  An extraction call fails in the same ways, and also when its text does not decode to a
  JSON object.
\<close>

definition generation_failed :: "svc_response \<Rightarrow> bool" where
  "generation_failed r = (case r of Raises \<Rightarrow> True | NoText \<Rightarrow> True | Text t \<Rightarrow> strip t = [])"

definition extraction_failed :: "(string \<Rightarrow> json option) \<Rightarrow> svc_response \<Rightarrow> bool" where
  "extraction_failed loads r =
     (case r of
        Raises \<Rightarrow> True
      | NoText \<Rightarrow> True
      | Text t \<Rightarrow>
          strip t = [] \<or>
          (case loads (strip t) of None \<Rightarrow> True | Some (JObj result) \<Rightarrow> False | Some _ \<Rightarrow> True))"

section \<open>Success of the extraction\<close>

text \<open>
  The \<^verbatim>\<open>try\<close> block of analyze_and_extract runs to its \<^verbatim>\<open>return\<close> exactly when the
  service answers with a non-blank text that decodes to a dict whose \<^verbatim>\<open>extracted\<close> entry is
  a dict in which every proposal for a catalog field is itself a dict (otherwise
  \<^verbatim>\<open>data.get\<close> raises), and whose \<^verbatim>\<open>cannot_answer\<close> entry can be iterated.
\<close>

fun is_dict :: "json \<Rightarrow> bool" where
  "is_dict (JObj kvs) = True"
| "is_dict _ = False"

fun is_iterable :: "json \<Rightarrow> bool" where
  "is_iterable (JArr xs) = True"
| "is_iterable (JStr s) = True"
| "is_iterable (JObj kvs) = True"
| "is_iterable _ = False"

definition well_formed_result :: "string list \<Rightarrow> json \<Rightarrow> bool" where
  "well_formed_result flds j =
     (case j of
        JObj result \<Rightarrow>
          (case dict_get result ''extracted'' (JObj []) of
             JObj extracted \<Rightarrow>
               list_all (\<lambda>(f, data). f \<in> set flds \<longrightarrow> is_dict data) extracted
               \<and> is_iterable (dict_get result ''cannot_answer'' (JArr []))
           | _ \<Rightarrow> False)
      | _ \<Rightarrow> False)"

definition extraction_succeeds ::
  "(prompt \<Rightarrow> svc_response) \<Rightarrow> (string \<Rightarrow> json option) \<Rightarrow> issue list \<Rightarrow> pydict \<Rightarrow> msg list \<Rightarrow> bool" where
  "extraction_succeeds client loads iss gathered chat_history =
     (2 \<le> length (filter (\<lambda>m. role m = ''user'') chat_history)
      \<and> (case client (analysis_prompt iss gathered chat_history) of
           Text t \<Rightarrow>
             strip t \<noteq> []
             \<and> (case loads (strip t) of
                  Some j \<Rightarrow> well_formed_result (all_issue_fields iss) j
                | None \<Rightarrow> False)
         | _ \<Rightarrow> False))"

section \<open>A two-issue session used for the concrete runs\<close>

definition mk_issue :: "string \<Rightarrow> string \<Rightarrow> issue" where
  "mk_issue f q =
     \<lparr>field = f, question = q, category = ''general'', importance = ''high'', status = ''open''\<rparr>"

definition answer :: "string \<Rightarrow> string \<Rightarrow> json" where
  "answer v c = JObj [(''value'', JStr v), (''confidence'', JStr c)]"

definition demo_issues :: "issue list" where
  "demo_issues =
     [mk_issue ''revenue'' ''What is your annual revenue?'',
      mk_issue ''team_size'' ''Tell me how large the team is'']"

definition demo_history :: "msg list" where
  "demo_history =
     [\<lparr>role = ''user'', msg.message = ''Hi''\<rparr>,
      \<lparr>role = ''assistant'', msg.message = ''Welcome! What is your annual revenue?''\<rparr>,
      \<lparr>role = ''user'', msg.message = ''Roughly one million''\<rparr>,
      \<lparr>role = ''assistant'', msg.message = ''Great. Tell me how large the team is?''\<rparr>]"

definition demo_data :: "pydict \<Rightarrow> string list \<Rightarrow> interview_data" where
  "demo_data gathered cannot =
     \<lparr>company_name = Some ''Acme'', sector = Some ''fintech'', founder_name = Some ''Dana'',
      issues = Some demo_issues, interview_data.gathered_info = Some gathered,
      interview_data.cannot_answer_fields = Some cannot\<rparr>"

text \<open>
  A service that answers every chat prompt with \<open>reply\<close> and every analysis prompt with
  the text \<open>''payload''\<close>, and a decoder that reads that text as \<open>j\<close>.
\<close>

definition demo_client :: "svc_response \<Rightarrow> prompt \<Rightarrow> svc_response" where
  "demo_client reply p = (case p of AnalysisPrompt a b c \<Rightarrow> Text ''payload'' | _ \<Rightarrow> reply)"

definition demo_loads :: "json \<Rightarrow> string \<Rightarrow> json option" where
  "demo_loads j s = (if s = ''payload'' then Some j else None)"

definition payload :: "(string \<times> json) list \<Rightarrow> json list \<Rightarrow> json" where
  "payload extracted cannot = JObj [(''extracted'', JObj extracted), (''cannot_answer'', JArr cannot)]"

text \<open>
  A run in which the participant first could not answer \<open>revenue\<close> (so the field is in the
  cannot-answer list) and then gives a rough figure, extracted with medium confidence.
\<close>

definition overlap_run :: completion_check where
  "overlap_run =
     analyze_and_extract (demo_client Raises)
       (demo_loads (payload [(''revenue'', answer ''about 1M'' ''medium'')] []))
       demo_issues [] [''revenue''] demo_history"


section \<open>Facts about the helpers\<close>

lemmas demo_defs = demo_issues_def demo_history_def demo_data_def demo_client_def demo_loads_def
  payload_def mk_issue_def answer_def

lemmas model_defs = analyze_and_extract_def extract_try_def analysis_prompt_def all_issue_fields_def
  keys_def dict_get_def dict_set_def strip_def isspace_def last_n_def

lemmas chat_defs = chat_with_founder_def generate_reply_def chat_prompt_def fallback_message_def
  closing_def will_be_closing_def still_needed_def next_questions_def gathered_issue_fields_def
  get_company_name_def get_sector_def get_founder_name_def get_issues_def get_gathered_info_def
  get_cannot_answer_fields_def generation_failed_def extraction_failed_def endswith_def
  ensure_question_def

lemma endswith_single: "endswith s [c] = (s \<noteq> [] \<and> last s = c)"
proof (cases s rule: rev_cases)
  case Nil
  then show ?thesis by (simp add: endswith_def)
next
  case (snoc ys y)
  then show ?thesis by (auto simp add: endswith_def)
qed

lemma ends_cases:
  "(\<exists>p \<in> set [''?'', ''!'', ''.'']. endswith m p)
     = (endswith m ''?'' \<or> endswith m ''!'' \<or> endswith m ''.'')"
  by simp

lemma endswith_excl:
  "endswith m ''!'' \<Longrightarrow> \<not> endswith m ''?''"
  "endswith m ''!'' \<Longrightarrow> \<not> endswith m ''.''"
  "endswith m ''.'' \<Longrightarrow> \<not> endswith m ''?''"
  by (auto simp add: endswith_single)

lemma endswith_append_q:
  "endswith (''Thanks for sharing! '' @ q) ''?'' = endswith q ''?''"
  by (cases q rule: rev_cases) (simp_all add: endswith_single)

lemma still_needed_filter:
  "still_needed iss g c = filter (\<lambda>i. field i \<notin> set (keys g) \<and> field i \<notin> set c) iss"
  unfolding still_needed_def gathered_issue_fields_def all_issue_fields_def
  by (rule filter_cong) auto

lemma merge_extracted_keys:
  "merge_extracted flds m xs = Inr m' \<Longrightarrow> set (keys m) \<subseteq> set (keys m')"
proof (induction flds m xs rule: merge_extracted.induct)
  case (1 flds merged)
  then show ?case by simp
next
  case (2 flds merged f data rest)
  then show ?case
    by (auto simp add: keys_def dict_set_def dom_update split: if_splits json.splits)
qed

lemma merge_extracted_lookup:
  "merge_extracted flds m xs = Inr m' \<Longrightarrow>
     map_of m' f = map_of m f \<or>
     (f \<in> set flds \<and> (\<exists>kvs. (f, JObj kvs) \<in> set xs
        \<and> dict_get kvs ''confidence'' JNull \<in> set [JStr ''high'', JStr ''medium'']
        \<and> map_of m' f = Some (JObj kvs)))"
proof (induction flds m xs rule: merge_extracted.induct)
  case (1 flds merged)
  then show ?case by simp
next
  case (2 flds merged g data rest)
  show ?case
  proof (cases "g \<in> set flds")
    case False
    with 2 show ?thesis by auto
  next
    case True
    show ?thesis
    proof (cases data)
      case (JObj kvs)
      show ?thesis
      proof (cases "dict_get kvs ''confidence'' JNull \<in> set [JStr ''high'', JStr ''medium'']")
        case acc: True
        from 2(4) True JObj acc
        have run: "merge_extracted flds (dict_set merged g data) rest = Inr m'" by simp
        from "2.IH"(1)[OF True JObj acc run]
        show ?thesis
          using True JObj acc
          by (auto simp add: dict_set_def update_conv' split: if_splits)
      next
        case rej: False
        from 2(4) True JObj rej
        have run: "merge_extracted flds merged rest = Inr m'" by simp
        from "2.IH"(2)[OF True JObj rej run]
        show ?thesis by auto
      qed
    qed (use 2 True in auto)
  qed
qed

lemma catalog_matches_set:
  "set (catalog_matches flds xs) = {s. s \<in> set flds \<and> JStr s \<in> set xs}"
  by (induction flds xs rule: catalog_matches.induct) auto

lemma extract_try_Inr:
  assumes "extract_try client loads iss g existing h = Inr r"
  shows "\<exists>t result extracted declared.
           client (analysis_prompt iss g h) = Text t \<and> strip t \<noteq> []
         \<and> loads (strip t) = Some (JObj result)
         \<and> dict_get result ''extracted'' (JObj []) = JObj extracted
         \<and> merge_extracted (all_issue_fields iss) g extracted = Inr (completion_check.gathered_info r)
         \<and> py_iter (dict_get result ''cannot_answer'' (JArr [])) = Inr declared
         \<and> completion_check.cannot_answer_fields r = catalog_matches (all_issue_fields iss) declared
         \<and> completion_check.is_complete r =
             (length (all_issue_fields iss)
                \<le> length (filter (\<lambda>f. f \<in> set (all_issue_fields iss)) (keys (completion_check.gathered_info r)))
                  + card (set (existing @ catalog_matches (all_issue_fields iss) declared)))"
  using assms unfolding extract_try_def Let_def
  by (auto split: svc_response.splits option.splits json.splits sum.splits if_splits)

lemma extract_try_existing:
  assumes "extract_try client loads iss g existing h = Inr r"
  shows "\<exists>r'. extract_try client loads iss g existing' h = Inr r'
            \<and> completion_check.cannot_answer_fields r' = completion_check.cannot_answer_fields r
            \<and> completion_check.gathered_info r' = completion_check.gathered_info r"
  using assms unfolding extract_try_def Let_def
  by (auto split: svc_response.splits option.splits json.splits sum.splits if_splits)

lemma analyze_and_extract_cases:
  "(completion_check.gathered_info (analyze_and_extract client loads iss g existing h) = g
      \<and> completion_check.cannot_answer_fields (analyze_and_extract client loads iss g existing h) = []
      \<and> \<not> completion_check.is_complete (analyze_and_extract client loads iss g existing h))
   \<or> (2 \<le> length (filter (\<lambda>m. role m = ''user'') h)
      \<and> extract_try client loads iss g existing h
          = Inr (analyze_and_extract client loads iss g existing h))"
  unfolding analyze_and_extract_def Let_def
  by (auto split: sum.splits)

lemma analysis_prompt_is: "\<exists>a b c. analysis_prompt iss g h = AnalysisPrompt a b c"
  by (simp add: analysis_prompt_def Let_def)

lemma extraction_failed_Inl:
  assumes "extraction_failed loads (client (analysis_prompt iss g h))"
  shows "\<exists>e. extract_try client loads iss g existing h = Inl e"
  using assms unfolding extract_try_def extraction_failed_def Let_def
  by (auto split: svc_response.splits option.splits json.splits)

lemma generation_failed_Inl:
  "generation_failed (client (chat_prompt d um h)) \<Longrightarrow> \<exists>e. generate_reply client d um h = Inl e"
  by (auto simp add: generation_failed_def generate_reply_def Let_def split: svc_response.splits)

lemma fallback_message_nonempty: "fallback_message d \<noteq> []"
  by (simp add: fallback_message_def Let_def)

lemma generate_reply_text:
  "client (chat_prompt d um h) = Text t \<Longrightarrow> strip t \<noteq> [] \<Longrightarrow>
     generate_reply client d um h
       = Inr (if closing d then strip t else ensure_question (strip t))"
  by (simp add: generate_reply_def Let_def)

lemma chat_message:
  "chat_result.message (chat_with_founder client loads d um h)
     = (case generate_reply client d um h of Inr m \<Rightarrow> m | Inl e \<Rightarrow> fallback_message d)"
  by (simp add: chat_with_founder_def Let_def)

lemma chat_prompt_mode:
  "is_ClosingPrompt (chat_prompt d um h) = closing d"
  "is_ContinuationPrompt (chat_prompt d um h) = (\<not> closing d)"
  by (simp_all add: chat_prompt_def Let_def)

lemmas success_defs = extraction_succeeds_def well_formed_result_def

lemma merge_extracted_total:
  "list_all (\<lambda>(f, data). f \<in> set flds \<longrightarrow> is_dict data) xs
     \<Longrightarrow> \<exists>m'. merge_extracted flds m xs = Inr m'"
proof (induction flds m xs rule: merge_extracted.induct)
  case (1 flds merged)
  then show ?case by simp
next
  case (2 flds merged f data rest)
  then show ?case by (cases data) auto
qed

lemma merge_extracted_raises:
  "merge_extracted flds m xs = Inr m'
     \<Longrightarrow> list_all (\<lambda>(f, data). f \<in> set flds \<longrightarrow> is_dict data) xs"
proof (induction flds m xs rule: merge_extracted.induct)
  case (1 flds merged)
  then show ?case by simp
next
  case (2 flds merged f data rest)
  then show ?case by (cases data) (auto split: if_splits)
qed

lemma py_iter_iterable: "(\<exists>xs. py_iter j = Inr xs) = is_iterable j"
  by (cases j) auto

lemma merge_extracted_exact:
  "merge_extracted flds m xs = Inr m' \<Longrightarrow> distinct (map fst xs) \<Longrightarrow>
     map_of m' f =
       (case map_of xs f of
          Some (JObj kvs) \<Rightarrow>
            if f \<in> set flds \<and> dict_get kvs ''confidence'' JNull \<in> set [JStr ''high'', JStr ''medium'']
            then Some (JObj kvs) else map_of m f
        | _ \<Rightarrow> map_of m f)"
proof (induction flds m xs rule: merge_extracted.induct)
  case (1 flds merged)
  then show ?case by simp
next
  case (2 flds merged g data rest)
  from "2.prems"(2) have d: "distinct (map fst rest)" and ng: "g \<notin> fst ` set rest" by auto
  from ng have none: "map_of rest g = None" by (simp add: map_of_eq_None_iff)
  show ?case
  proof (cases "g \<in> set flds")
    case False
    with "2.prems"(1) have run: "merge_extracted flds merged rest = Inr m'" by simp
    from "2.IH"(3) [OF False run d] False none show ?thesis
      by (cases "f = g") (auto split: option.splits json.splits)
  next
    case True
    show ?thesis
    proof (cases data)
      case (JObj kvs)
      show ?thesis
      proof (cases "dict_get kvs ''confidence'' JNull \<in> set [JStr ''high'', JStr ''medium'']")
        case acc: True
        from "2.prems"(1) True JObj acc
        have run: "merge_extracted flds (dict_set merged g data) rest = Inr m'" by simp
        from "2.IH"(1) [OF True JObj acc run d] True JObj acc none show ?thesis
          by (cases "f = g") (auto simp add: dict_set_def update_conv' split: option.splits json.splits)
      next
        case rej: False
        from "2.prems"(1) True JObj rej
        have run: "merge_extracted flds merged rest = Inr m'" by simp
        from "2.IH"(2) [OF True JObj rej run d] True JObj rej none show ?thesis
          by (cases "f = g") (auto split: option.splits json.splits)
      qed
    qed (use "2.prems"(1) True in auto)
  qed
qed

lemma extract_try_Inr_iff:
  "(\<exists>r. extract_try client loads iss g existing h = Inr r)
     = (case client (analysis_prompt iss g h) of
          Text t \<Rightarrow>
            strip t \<noteq> []
            \<and> (case loads (strip t) of
                 Some j \<Rightarrow> well_formed_result (all_issue_fields iss) j
               | None \<Rightarrow> False)
        | _ \<Rightarrow> False)"
proof
  assume "\<exists>r. extract_try client loads iss g existing h = Inr r"
  then obtain r where ok: "extract_try client loads iss g existing h = Inr r" ..
  from extract_try_Inr [OF ok] obtain t result extracted declared where
    t: "client (analysis_prompt iss g h) = Text t" "strip t \<noteq> []"
    and l: "loads (strip t) = Some (JObj result)"
    and x: "dict_get result ''extracted'' (JObj []) = JObj extracted"
    and m: "merge_extracted (all_issue_fields iss) g extracted = Inr (completion_check.gathered_info r)"
    and p: "py_iter (dict_get result ''cannot_answer'' (JArr [])) = Inr declared"
    by blast
  from p have "is_iterable (dict_get result ''cannot_answer'' (JArr []))"
    using py_iter_iterable by blast
  with merge_extracted_raises [OF m] x
  have "well_formed_result (all_issue_fields iss) (JObj result)"
    by (simp add: well_formed_result_def)
  with t l show "case client (analysis_prompt iss g h) of
          Text t \<Rightarrow>
            strip t \<noteq> []
            \<and> (case loads (strip t) of
                 Some j \<Rightarrow> well_formed_result (all_issue_fields iss) j
               | None \<Rightarrow> False)
        | _ \<Rightarrow> False" by simp
next
  assume a: "case client (analysis_prompt iss g h) of
          Text t \<Rightarrow>
            strip t \<noteq> []
            \<and> (case loads (strip t) of
                 Some j \<Rightarrow> well_formed_result (all_issue_fields iss) j
               | None \<Rightarrow> False)
        | _ \<Rightarrow> False"
  then obtain t j where t: "client (analysis_prompt iss g h) = Text t" "strip t \<noteq> []"
    and l: "loads (strip t) = Some j" and w: "well_formed_result (all_issue_fields iss) j"
    by (auto split: svc_response.splits option.splits)
  from w obtain result extracted where j: "j = JObj result"
    and x: "dict_get result ''extracted'' (JObj []) = JObj extracted"
    and all: "list_all (\<lambda>(f, data). f \<in> set (all_issue_fields iss) \<longrightarrow> is_dict data) extracted"
    and it: "is_iterable (dict_get result ''cannot_answer'' (JArr []))"
    by (auto simp add: well_formed_result_def split: json.splits)
  from merge_extracted_total [OF all] obtain m' where
    m: "merge_extracted (all_issue_fields iss) g extracted = Inr m'" by blast
  from it obtain declared where
    p: "py_iter (dict_get result ''cannot_answer'' (JArr [])) = Inr declared"
    using py_iter_iterable by blast
  show "\<exists>r. extract_try client loads iss g existing h = Inr r"
    using t l j x m p by (simp add: extract_try_def Let_def)
qed

lemma analyze_and_extract_failure:
  "\<not> extraction_succeeds client loads iss g h \<Longrightarrow>
     completion_check.gathered_info (analyze_and_extract client loads iss g existing h) = g"
  using analyze_and_extract_cases [of client loads iss g existing h]
    extract_try_Inr_iff [of client loads iss g existing h]
  unfolding extraction_succeeds_def by blast

lemma overlap_run_eq:
  "overlap_run =
     \<lparr>completion_check.is_complete = True,
      completion_check.gathered_info = [(''revenue'', answer ''about 1M'' ''medium'')],
      still_pending = [''team_size''],
      completion_check.cannot_answer_fields = []\<rparr>"
  by (simp add: overlap_run_def model_defs demo_defs)

section \<open>Completion flag\<close>

text \<open>
  C1. The claim asks that completion hold exactly when the number of distinct catalog
  fields covered by the gathered keys and the cannot-answer fields reaches the catalog size.
  The code adds two separate counts, so a field that is both gathered and in the
  cannot-answer list counts twice. In the run below the catalog has two issues and only
  \<open>revenue\<close> is covered, yet is_complete is true while still_pending, computed a few lines
  later in the same function, still lists \<open>team_size\<close>.
\<close>

theorem completion_counts_overlap_twice:
  "completion_check.is_complete overlap_run
 \<and> still_pending overlap_run = [''team_size'']
 \<and> length demo_issues = 2
 \<and> card ((set (keys (completion_check.gathered_info overlap_run))
            \<union> set ([''revenue''] @ completion_check.cannot_answer_fields overlap_run))
           \<inter> set (all_issue_fields demo_issues)) = 1"
  by (simp add: overlap_run_eq keys_def all_issue_fields_def demo_issues_def mk_issue_def)

section \<open>Fallback on failure of the reasoning service\<close>

text \<open>
  C2. When the generation call and every extraction call fail, the turn returns the
  non-empty templated fallback reply, the input gathered_info unchanged, no new
  cannot-answer field and is_complete false; the function returns a result, not an error.
\<close>

theorem fallback_on_double_failure:
  assumes gen: "generation_failed (client (chat_prompt d um h))"
      and ext: "\<forall>a b c. extraction_failed loads (client (AnalysisPrompt a b c))"
  shows "chat_result.message (chat_with_founder client loads d um h) = fallback_message d
       \<and> chat_result.message (chat_with_founder client loads d um h) \<noteq> []
       \<and> chat_result.gathered_info (chat_with_founder client loads d um h) = get_gathered_info d
       \<and> chat_result.cannot_answer_fields (chat_with_founder client loads d um h) = []
       \<and> \<not> chat_result.is_complete (chat_with_founder client loads d um h)"
proof -
  from gen obtain e where e: "generate_reply client d um h = Inl e"
    using generation_failed_Inl [of client d um h] by blast
  let ?h = "h @ [\<lparr>role = ''user'', msg.message = um\<rparr>,
                 \<lparr>role = ''assistant'', msg.message = fallback_message d\<rparr>]"
  let ?R = "analyze_and_extract client loads (get_issues d) (get_gathered_info d)
              (get_cannot_answer_fields d) ?h"
  obtain a b c where "analysis_prompt (get_issues d) (get_gathered_info d) ?h = AnalysisPrompt a b c"
    using analysis_prompt_is by blast
  with ext have "extraction_failed loads
      (client (analysis_prompt (get_issues d) (get_gathered_info d) ?h))" by simp
  then have "\<exists>e. extract_try client loads (get_issues d) (get_gathered_info d)
              (get_cannot_answer_fields d) ?h = Inl e"
    by (rule extraction_failed_Inl)
  then have no: "\<And>r. extract_try client loads (get_issues d) (get_gathered_info d)
              (get_cannot_answer_fields d) ?h \<noteq> Inr r" by (metis Inl_Inr_False)
  have R: "completion_check.gathered_info ?R = get_gathered_info d
         \<and> completion_check.cannot_answer_fields ?R = []
         \<and> \<not> completion_check.is_complete ?R"
    using analyze_and_extract_cases [of client loads "get_issues d" "get_gathered_info d"
        "get_cannot_answer_fields d" ?h] no by blast
  show ?thesis
    using e R by (simp add: chat_with_founder_def Let_def fallback_message_nonempty)
qed

theorem fallback_on_double_failure_witness:
  "generation_failed (demo_client Raises (chat_prompt (demo_data [] []) ''Roughly one million'' (take 2 demo_history)))
 \<and> chat_result.message (chat_with_founder (demo_client Raises) (demo_loads (JStr ''not an object''))
       (demo_data [] []) ''Roughly one million'' (take 2 demo_history))
     = ''Thanks for sharing! What is your annual revenue?''
 \<and> chat_result.gathered_info (chat_with_founder (demo_client Raises) (demo_loads (JStr ''not an object''))
       (demo_data [] []) ''Roughly one million'' (take 2 demo_history)) = []
 \<and> chat_result.cannot_answer_fields (chat_with_founder (demo_client Raises) (demo_loads (JStr ''not an object''))
       (demo_data [] []) ''Roughly one million'' (take 2 demo_history)) = []
 \<and> \<not> chat_result.is_complete (chat_with_founder (demo_client Raises) (demo_loads (JStr ''not an object''))
       (demo_data [] []) ''Roughly one million'' (take 2 demo_history))"
proof -
  have gen: "generation_failed (demo_client Raises
      (chat_prompt (demo_data [] []) ''Roughly one million'' (take 2 demo_history)))"
    by (simp add: chat_defs demo_defs all_issue_fields_def keys_def)
  have ext: "\<forall>a b c. extraction_failed (demo_loads (JStr ''not an object''))
                (demo_client Raises (AnalysisPrompt a b c))"
    by (simp add: extraction_failed_def demo_client_def demo_loads_def strip_def isspace_def)
  have fb: "fallback_message (demo_data [] []) = ''Thanks for sharing! What is your annual revenue?''"
    by (simp add: chat_defs demo_defs all_issue_fields_def keys_def)
  have g: "get_gathered_info (demo_data [] []) = []"
    by (simp add: get_gathered_info_def demo_data_def)
  show ?thesis
    using gen fallback_on_double_failure [OF gen ext] fb g
    by simp
qed

section \<open>The merge of extracted answers\<close>

text \<open>
  C3 as stated fails: an accepted proposal for a field that is already gathered replaces
  the stored value.
\<close>

theorem merge_overwrites_counterexample:
  "map_of [(''revenue'', answer ''1M'' ''high'')] ''revenue'' = Some (answer ''1M'' ''high'')
 \<and> map_of (completion_check.gathered_info
       (analyze_and_extract (demo_client Raises)
          (demo_loads (payload [(''revenue'', answer ''2M'' ''medium'')] []))
          demo_issues [(''revenue'', answer ''1M'' ''high'')] [] demo_history)) ''revenue''
     = Some (answer ''2M'' ''medium'')
 \<and> answer ''2M'' ''medium'' \<noteq> answer ''1M'' ''high''"
  by (simp add: model_defs demo_defs)

text \<open>
  C3, amended. Every key of the input gathered_info is a key of the returned gathered_info.
  When the extraction is skipped or does not succeed (fewer than two user messages, a
  failing service, a text that does not decode, a result that is not well formed), the
  returned gathered_info is the input, unchanged. When it succeeds, the returned value of
  each field is this turn's proposal for it if the field is a catalog field and the
  proposal's confidence is high or medium, also where the input already held a value (the
  latest accepted extraction wins), and the input's value otherwise. The attempted set, the
  keys of gathered_info joined with the cannot-answer fields, of the next turn contains
  that of this turn whenever the cannot-answer list persisted for the next turn contains
  the previous list and the returned additions.
\<close>

theorem merge_latest_accepted_wins:
  "set (keys g)
     \<subseteq> set (keys (completion_check.gathered_info (analyze_and_extract client loads iss g existing h)))
 \<and> (\<not> extraction_succeeds client loads iss g h
      \<longrightarrow> completion_check.gathered_info (analyze_and_extract client loads iss g existing h) = g)
 \<and> (extraction_succeeds client loads iss g h
      \<and> client (analysis_prompt iss g h) = Text t
      \<and> loads (strip t) = Some (JObj result)
      \<and> dict_get result ''extracted'' (JObj []) = JObj extracted
      \<and> distinct (map fst extracted)
      \<longrightarrow> (\<forall>f. map_of (completion_check.gathered_info (analyze_and_extract client loads iss g existing h)) f
                = (case map_of extracted f of
                     Some (JObj kvs) \<Rightarrow>
                       if f \<in> set (all_issue_fields iss)
                          \<and> dict_get kvs ''confidence'' JNull \<in> set [JStr ''high'', JStr ''medium'']
                       then Some (JObj kvs) else map_of g f
                   | _ \<Rightarrow> map_of g f)))
 \<and> (set existing
       \<union> set (completion_check.cannot_answer_fields (analyze_and_extract client loads iss g existing h))
       \<subseteq> set persisted
      \<longrightarrow> set (keys g) \<union> set existing
            \<subseteq> set (keys (completion_check.gathered_info (analyze_and_extract client loads iss g existing h)))
              \<union> set persisted)"
proof -
  let ?R = "analyze_and_extract client loads iss g existing h"
  have k: "set (keys g) \<subseteq> set (keys (completion_check.gathered_info ?R))"
  proof -
    consider (same) "completion_check.gathered_info ?R = g"
      | (ok) "extract_try client loads iss g existing h = Inr ?R"
      using analyze_and_extract_cases [of client loads iss g existing h] by blast
    then show ?thesis
    proof cases
      case same
      then show ?thesis by simp
    next
      case ok
      from extract_try_Inr [OF ok] obtain extracted where
        "merge_extracted (all_issue_fields iss) g extracted = Inr (completion_check.gathered_info ?R)"
        by blast
      then show ?thesis by (rule merge_extracted_keys)
    qed
  qed
  have fail: "completion_check.gathered_info ?R = g"
    if "\<not> extraction_succeeds client loads iss g h"
    using that by (rule analyze_and_extract_failure)
  have win: "map_of (completion_check.gathered_info ?R) f
                = (case map_of extracted f of
                     Some (JObj kvs) \<Rightarrow>
                       if f \<in> set (all_issue_fields iss)
                          \<and> dict_get kvs ''confidence'' JNull \<in> set [JStr ''high'', JStr ''medium'']
                       then Some (JObj kvs) else map_of g f
                   | _ \<Rightarrow> map_of g f)"
    if s: "extraction_succeeds client loads iss g h"
      and t: "client (analysis_prompt iss g h) = Text t"
      and l: "loads (strip t) = Some (JObj result)"
      and x: "dict_get result ''extracted'' (JObj []) = JObj extracted"
      and d: "distinct (map fst extracted)" for f
  proof -
    from s have users: "2 \<le> length (filter (\<lambda>m. role m = ''user'') h)"
      and "\<exists>r. extract_try client loads iss g existing h = Inr r"
      using extract_try_Inr_iff [of client loads iss g existing h]
      by (simp_all add: extraction_succeeds_def)
    then obtain r where ok: "extract_try client loads iss g existing h = Inr r" by blast
    with users have R: "?R = r" by (simp add: analyze_and_extract_def Let_def)
    from extract_try_Inr [OF ok] t l x
    have "merge_extracted (all_issue_fields iss) g extracted = Inr (completion_check.gathered_info r)"
      by auto
    from merge_extracted_exact [OF this d, of f] R show ?thesis by simp
  qed
  from k fail win show ?thesis by blast
qed

theorem merge_latest_accepted_wins_witness:
  "extraction_succeeds (demo_client Raises)
     (demo_loads (payload [(''revenue'', answer ''2M'' ''medium'')] []))
     demo_issues [(''revenue'', answer ''1M'' ''high'')] demo_history
 \<and> distinct (map fst [(''revenue'', answer ''2M'' ''medium'')])
 \<and> map_of (completion_check.gathered_info
       (analyze_and_extract (demo_client Raises)
          (demo_loads (payload [(''revenue'', answer ''2M'' ''medium'')] []))
          demo_issues [(''revenue'', answer ''1M'' ''high'')] [] demo_history)) ''revenue''
     = Some (answer ''2M'' ''medium'')
 \<and> \<not> extraction_succeeds (demo_client Raises)
     (demo_loads (payload [(''revenue'', answer ''2M'' ''medium''), (''team_size'', JStr ''12'')] []))
     demo_issues [(''revenue'', answer ''1M'' ''high'')] demo_history
 \<and> completion_check.gathered_info
       (analyze_and_extract (demo_client Raises)
          (demo_loads (payload [(''revenue'', answer ''2M'' ''medium''), (''team_size'', JStr ''12'')] []))
          demo_issues [(''revenue'', answer ''1M'' ''high'')] [] demo_history)
     = [(''revenue'', answer ''1M'' ''high'')]
 \<and> set (keys [(''revenue'', answer ''1M'' ''high'')]) \<union> set [''team_size'']
     \<subseteq> set (keys (completion_check.gathered_info
         (analyze_and_extract (demo_client Raises)
            (demo_loads (payload [(''revenue'', answer ''2M'' ''medium'')] []))
            demo_issues [(''revenue'', answer ''1M'' ''high'')] [''team_size''] demo_history)))
       \<union> set [''team_size'']"
proof -
  have s: "extraction_succeeds (demo_client Raises)
     (demo_loads (payload [(''revenue'', answer ''2M'' ''medium'')] []))
     demo_issues [(''revenue'', answer ''1M'' ''high'')] demo_history"
    by (simp add: success_defs model_defs demo_defs)
  have n: "\<not> extraction_succeeds (demo_client Raises)
     (demo_loads (payload [(''revenue'', answer ''2M'' ''medium''), (''team_size'', JStr ''12'')] []))
     demo_issues [(''revenue'', answer ''1M'' ''high'')] demo_history"
    by (simp add: success_defs model_defs demo_defs)
  have t: "demo_client Raises (analysis_prompt demo_issues [(''revenue'', answer ''1M'' ''high'')] demo_history)
             = Text ''payload''"
    by (simp add: analysis_prompt_def Let_def demo_client_def)
  have l: "demo_loads (payload [(''revenue'', answer ''2M'' ''medium'')] []) (strip ''payload'')
             = Some (JObj [(''extracted'', JObj [(''revenue'', answer ''2M'' ''medium'')]),
                           (''cannot_answer'', JArr [])])"
    by (simp add: demo_loads_def payload_def strip_def isspace_def)
  have x: "dict_get [(''extracted'', JObj [(''revenue'', answer ''2M'' ''medium'')]),
                     (''cannot_answer'', JArr [])] ''extracted'' (JObj [])
             = JObj [(''revenue'', answer ''2M'' ''medium'')]"
    by (simp add: dict_get_def)
  have d: "distinct (map fst [(''revenue'', answer ''2M'' ''medium'')])" by simp
  have a: "map_of (completion_check.gathered_info
       (analyze_and_extract (demo_client Raises)
          (demo_loads (payload [(''revenue'', answer ''2M'' ''medium'')] []))
          demo_issues [(''revenue'', answer ''1M'' ''high'')] [] demo_history)) ''revenue''
     = Some (answer ''2M'' ''medium'')"
    using s t l x d
      merge_latest_accepted_wins [of "[(''revenue'', answer ''1M'' ''high'')]" "demo_client Raises"
        "demo_loads (payload [(''revenue'', answer ''2M'' ''medium'')] [])" demo_issues "[]"
        demo_history "''payload''"
        "[(''extracted'', JObj [(''revenue'', answer ''2M'' ''medium'')]), (''cannot_answer'', JArr [])]"
        "[(''revenue'', answer ''2M'' ''medium'')]" "[]"]
    by (simp add: answer_def dict_get_def all_issue_fields_def demo_issues_def mk_issue_def)
  have b: "completion_check.gathered_info
       (analyze_and_extract (demo_client Raises)
          (demo_loads (payload [(''revenue'', answer ''2M'' ''medium''), (''team_size'', JStr ''12'')] []))
          demo_issues [(''revenue'', answer ''1M'' ''high'')] [] demo_history)
     = [(''revenue'', answer ''1M'' ''high'')]"
    using n
      merge_latest_accepted_wins [of "[(''revenue'', answer ''1M'' ''high'')]" "demo_client Raises"
        "demo_loads (payload [(''revenue'', answer ''2M'' ''medium''), (''team_size'', JStr ''12'')] [])"
        demo_issues "[]" demo_history]
    by blast
  have c: "set (keys [(''revenue'', answer ''1M'' ''high'')]) \<union> set [''team_size'']
     \<subseteq> set (keys (completion_check.gathered_info
         (analyze_and_extract (demo_client Raises)
            (demo_loads (payload [(''revenue'', answer ''2M'' ''medium'')] []))
            demo_issues [(''revenue'', answer ''1M'' ''high'')] [''team_size''] demo_history)))
       \<union> set [''team_size'']"
    using merge_latest_accepted_wins [of "[(''revenue'', answer ''1M'' ''high'')]" "demo_client Raises"
        "demo_loads (payload [(''revenue'', answer ''2M'' ''medium'')] [])" demo_issues "[''team_size'']"
        demo_history "''payload''"
        "[(''extracted'', JObj [(''revenue'', answer ''2M'' ''medium'')]), (''cannot_answer'', JArr [])]"
        "[(''revenue'', answer ''2M'' ''medium'')]" "[''team_size'']"]
    by (simp add: model_defs demo_defs)
  from s d a n b c show ?thesis by blast
qed

section \<open>First-turn rule\<close>

text \<open>
  C4. With fewer than two messages of role \<open>user\<close> in the transcript, analyze_and_extract
  returns the input gathered_info unchanged, is_complete false and no new cannot-answer
  field, whatever the reasoning service and the JSON decoder would answer.
\<close>

theorem first_turn_skips_extraction:
  "length (filter (\<lambda>m. role m = ''user'') chat_history) < 2 \<Longrightarrow>
     analyze_and_extract client loads iss gathered existing chat_history =
       \<lparr>completion_check.is_complete = False,
        completion_check.gathered_info = gathered,
        still_pending = map field iss,
        completion_check.cannot_answer_fields = []\<rparr>"
  by (simp add: analyze_and_extract_def)

theorem first_turn_skips_extraction_witness:
  "length (filter (\<lambda>m. role m = ''user'') (take 2 demo_history)) < 2
   \<and> analyze_and_extract (demo_client Raises)
        (demo_loads (payload [(''revenue'', answer ''1M'' ''high'')] [])) demo_issues [] []
        (take 2 demo_history) =
       \<lparr>completion_check.is_complete = False,
        completion_check.gathered_info = [],
        still_pending = [''revenue'', ''team_size''],
        completion_check.cannot_answer_fields = []\<rparr>"
  using first_turn_skips_extraction [of "take 2 demo_history" "demo_client Raises"
      "demo_loads (payload [(''revenue'', answer ''1M'' ''high'')] [])" demo_issues "[]" "[]"]
  by (simp add: demo_defs)

section \<open>Confidence gate\<close>

text \<open>
  C5. The merged gathered_info differs from the input at a field only if that field is a
  catalog field and the extraction result proposes for it a dict whose confidence is high
  or medium, which is then the stored value; a field outside the catalog, or one whose
  proposals all carry another confidence such as low, keeps what the input had (nothing,
  if it was absent).
\<close>

theorem confidence_gate:
  "(map_of (completion_check.gathered_info (analyze_and_extract client loads iss g existing h)) f \<noteq> map_of g f
      \<longrightarrow> f \<in> set (all_issue_fields iss)
        \<and> (\<exists>t result extracted kvs.
              client (analysis_prompt iss g h) = Text t
            \<and> loads (strip t) = Some (JObj result)
            \<and> dict_get result ''extracted'' (JObj []) = JObj extracted
            \<and> (f, JObj kvs) \<in> set extracted
            \<and> dict_get kvs ''confidence'' JNull \<in> set [JStr ''high'', JStr ''medium'']
            \<and> map_of (completion_check.gathered_info (analyze_and_extract client loads iss g existing h)) f
                  = Some (JObj kvs)))
 \<and> (client (analysis_prompt iss g h) = Text t
      \<and> loads (strip t) = Some (JObj result)
      \<and> dict_get result ''extracted'' (JObj []) = JObj extracted
      \<and> (f \<notin> set (all_issue_fields iss)
          \<or> (\<forall>kvs. (f, JObj kvs) \<in> set extracted
                \<longrightarrow> dict_get kvs ''confidence'' JNull \<notin> set [JStr ''high'', JStr ''medium'']))
      \<longrightarrow> map_of (completion_check.gathered_info (analyze_and_extract client loads iss g existing h)) f
            = map_of g f)"
proof -
  let ?R = "analyze_and_extract client loads iss g existing h"
  have first: "f \<in> set (all_issue_fields iss)
        \<and> (\<exists>t result extracted kvs.
              client (analysis_prompt iss g h) = Text t
            \<and> loads (strip t) = Some (JObj result)
            \<and> dict_get result ''extracted'' (JObj []) = JObj extracted
            \<and> (f, JObj kvs) \<in> set extracted
            \<and> dict_get kvs ''confidence'' JNull \<in> set [JStr ''high'', JStr ''medium'']
            \<and> map_of (completion_check.gathered_info ?R) f = Some (JObj kvs))"
    if neq: "map_of (completion_check.gathered_info ?R) f \<noteq> map_of g f"
  proof -
    from neq have "completion_check.gathered_info ?R \<noteq> g" by auto
    then have ok: "extract_try client loads iss g existing h = Inr ?R"
      using analyze_and_extract_cases [of client loads iss g existing h] by blast
    from extract_try_Inr [OF ok] obtain t result extracted where
      t: "client (analysis_prompt iss g h) = Text t"
      and l: "loads (strip t) = Some (JObj result)"
      and x: "dict_get result ''extracted'' (JObj []) = JObj extracted"
      and m: "merge_extracted (all_issue_fields iss) g extracted = Inr (completion_check.gathered_info ?R)"
      by blast
    from merge_extracted_lookup [OF m, of f] neq t l x show ?thesis by metis
  qed
  have second: "map_of (completion_check.gathered_info ?R) f = map_of g f"
    if t: "client (analysis_prompt iss g h) = Text t"
      and l: "loads (strip t) = Some (JObj result)"
      and x: "dict_get result ''extracted'' (JObj []) = JObj extracted"
      and rej: "f \<notin> set (all_issue_fields iss)
          \<or> (\<forall>kvs. (f, JObj kvs) \<in> set extracted
                \<longrightarrow> dict_get kvs ''confidence'' JNull \<notin> set [JStr ''high'', JStr ''medium''])"
  proof (rule ccontr)
    assume "map_of (completion_check.gathered_info ?R) f \<noteq> map_of g f"
    from first [OF this] t l x rej show False by auto
  qed
  from first second show ?thesis by blast
qed

theorem confidence_gate_witness:
  "completion_check.gathered_info
       (analyze_and_extract (demo_client Raises)
          (demo_loads (payload [(''revenue'', answer ''1M'' ''high''),
                                (''team_size'', answer ''a few'' ''low''),
                                (''burn'', answer ''50k'' ''high'')] []))
          demo_issues [] [] demo_history)
     = [(''revenue'', answer ''1M'' ''high'')]
 \<and> map_of (completion_check.gathered_info
       (analyze_and_extract (demo_client Raises)
          (demo_loads (payload [(''revenue'', answer ''1M'' ''high''),
                                (''team_size'', answer ''a few'' ''low''),
                                (''burn'', answer ''50k'' ''high'')] []))
          demo_issues [] [] demo_history)) ''team_size'' = None"
  using confidence_gate [of "demo_client Raises"
      "demo_loads (payload [(''revenue'', answer ''1M'' ''high''),
                            (''team_size'', answer ''a few'' ''low''),
                            (''burn'', answer ''50k'' ''high'')] [])"
      demo_issues "[]" "[]" demo_history "''team_size''" "''payload''"
      "[(''extracted'', JObj [(''revenue'', answer ''1M'' ''high''),
                              (''team_size'', answer ''a few'' ''low''),
                              (''burn'', answer ''50k'' ''high'')]), (''cannot_answer'', JArr [])]"
      "[(''revenue'', answer ''1M'' ''high''),
        (''team_size'', answer ''a few'' ''low''),
        (''burn'', answer ''50k'' ''high'')]"]
  by (simp add: model_defs demo_defs)

section \<open>Candidate questions\<close>

text \<open>
  C6. The candidate list holds the questions of the first three (or fewer) catalog issues,
  in catalog order, whose field is neither a key of gathered_info nor in
  cannot_answer_fields; so no candidate belongs to a field of cannot_answer_fields. In
  continuation mode these candidates are the questions written into the prompt.
\<close>

theorem next_questions_skip_attempted:
  "next_questions iss g c
     = map question (take 3 (filter (\<lambda>i. field i \<notin> set (keys g) \<and> field i \<notin> set c) iss))
 \<and> (\<forall>i \<in> set (take 3 (still_needed iss g c)). field i \<notin> set c \<and> field i \<notin> set (keys g))
 \<and> (\<not> closing d \<longrightarrow>
       take (length (next_questions (get_issues d) (get_gathered_info d) (get_cannot_answer_fields d)))
         [p_q1 (chat_prompt d um h), p_q2 (chat_prompt d um h), p_q3 (chat_prompt d um h)]
       = next_questions (get_issues d) (get_gathered_info d) (get_cannot_answer_fields d))"
proof -
  have a: "next_questions iss g c
     = map question (take 3 (filter (\<lambda>i. field i \<notin> set (keys g) \<and> field i \<notin> set c) iss))"
    by (simp add: next_questions_def still_needed_filter)
  have b: "\<forall>i \<in> set (take 3 (still_needed iss g c)). field i \<notin> set c \<and> field i \<notin> set (keys g)"
    by (auto simp add: still_needed_filter dest!: in_set_takeD)
  have c: "take (length nq) [if length nq > 0 then nq ! 0 else x, if length nq > 1 then nq ! 1 else y,
                             if length nq > 2 then nq ! 2 else z] = nq"
    if "length nq \<le> 3" for nq :: "string list" and x y z
  proof -
    from that consider "nq = []" | u where "nq = [u]" | u v where "nq = [u, v]"
      | u v w where "nq = [u, v, w]"
      by (cases nq; cases "tl nq"; cases "tl (tl nq)"; cases "tl (tl (tl nq))") auto
    then show ?thesis by cases auto
  qed
  have len: "length (next_questions (get_issues d) (get_gathered_info d) (get_cannot_answer_fields d)) \<le> 3"
    by (simp add: next_questions_def)
  have d: "take (length (next_questions (get_issues d) (get_gathered_info d) (get_cannot_answer_fields d)))
         [p_q1 (chat_prompt d um h), p_q2 (chat_prompt d um h), p_q3 (chat_prompt d um h)]
       = next_questions (get_issues d) (get_gathered_info d) (get_cannot_answer_fields d)"
    if "\<not> closing d"
    using that c [OF len] by (simp add: chat_prompt_def Let_def)
  from a b d show ?thesis by blast
qed

theorem next_questions_skip_attempted_witness:
  "next_questions
     [mk_issue ''a'' ''A?'', mk_issue ''b'' ''B?'', mk_issue ''c'' ''C?'', mk_issue ''d'' ''D?'',
      mk_issue ''e'' ''E?'', mk_issue ''f'' ''F?'']
     [(''a'', answer ''1'' ''high'')] [''c''] = [''B?'', ''D?'', ''E?'']
 \<and> \<not> closing (demo_data [] [''revenue''])
 \<and> next_questions (get_issues (demo_data [] [''revenue''])) (get_gathered_info (demo_data [] [''revenue'']))
       (get_cannot_answer_fields (demo_data [] [''revenue''])) = [''Tell me how large the team is'']
 \<and> p_q1 (chat_prompt (demo_data [] [''revenue'']) ''I do not know'' demo_history)
     = ''Tell me how large the team is''"
  using next_questions_skip_attempted [of
      "[mk_issue ''a'' ''A?'', mk_issue ''b'' ''B?'', mk_issue ''c'' ''C?'', mk_issue ''d'' ''D?'',
        mk_issue ''e'' ''E?'', mk_issue ''f'' ''F?'']"
      "[(''a'', answer ''1'' ''high'')]" "[''c'']" "demo_data [] [''revenue'']"
      "''I do not know''" demo_history]
  by (simp add: chat_defs demo_defs all_issue_fields_def keys_def)

section \<open>Question-mark rule\<close>

text \<open>
  C7. On the stripped reply text of a continuation turn: a text ending in a full stop
  with no question mark anywhere gets the full stop replaced by a question mark; a text
  ending in none of full stop, exclamation mark and question mark gets a question mark
  appended; a text ending in an exclamation mark or a question mark, or ending in a full
  stop with a question mark elsewhere, is returned as it is.
\<close>

theorem question_mark_rule:
  "(\<not> endswith m ''?'' \<and> endswith m ''.'' \<and> CHR ''?'' \<notin> set m
      \<longrightarrow> ensure_question m = butlast m @ ''?'')
 \<and> (\<not> endswith m ''.'' \<and> \<not> endswith m ''!'' \<and> \<not> endswith m ''?''
      \<longrightarrow> ensure_question m = m @ ''?'')
 \<and> (endswith m ''!'' \<or> endswith m ''?'' \<or> (endswith m ''.'' \<and> CHR ''?'' \<in> set m)
      \<longrightarrow> ensure_question m = m)
 \<and> (\<not> closing d \<and> client (chat_prompt d um h) = Text t \<and> strip t \<noteq> []
      \<longrightarrow> chat_result.message (chat_with_founder client loads d um h) = ensure_question (strip t))"
proof -
  have a: "ensure_question m = butlast m @ ''?''"
    if "\<not> endswith m ''?''" "endswith m ''.''" "CHR ''?'' \<notin> set m"
    using that unfolding ensure_question_def ends_cases by simp
  have b: "ensure_question m = m @ ''?''"
    if "\<not> endswith m ''.''" "\<not> endswith m ''!''" "\<not> endswith m ''?''"
    using that unfolding ensure_question_def ends_cases by simp
  have c: "ensure_question m = m"
    if "endswith m ''!'' \<or> endswith m ''?'' \<or> (endswith m ''.'' \<and> CHR ''?'' \<in> set m)"
    using that endswith_excl [of m] unfolding ensure_question_def ends_cases by auto
  have d: "chat_result.message (chat_with_founder client loads d um h) = ensure_question (strip t)"
    if "\<not> closing d" "client (chat_prompt d um h) = Text t" "strip t \<noteq> []"
    using that by (simp add: chat_message generate_reply_text)
  from a b c d show ?thesis by blast
qed

theorem question_mark_rule_witness:
  "ensure_question ''Nice. Tell me more.'' = ''Nice. Tell me more?''
 \<and> ensure_question ''Tell me more'' = ''Tell me more?''
 \<and> ensure_question ''Wow!'' = ''Wow!''
 \<and> ensure_question ''Really? Go on.'' = ''Really? Go on.''
 \<and> \<not> closing (demo_data [] [])
 \<and> chat_result.message
       (chat_with_founder (demo_client (Text '' Got it. Tell me about the team. ''))
          (demo_loads (payload [] [])) (demo_data [] []) ''Roughly one million'' (take 2 demo_history))
     = ''Got it. Tell me about the team?''"
  using question_mark_rule [of "''Nice. Tell me more.''" "demo_data [] []"
      "demo_client (Text '' Got it. Tell me about the team. '')" "''Roughly one million''"
      "take 2 demo_history" "'' Got it. Tell me about the team. ''" "demo_loads (payload [] [])"]
    question_mark_rule [of "''Tell me more''" "demo_data [] []"
      "demo_client (Text '' Got it. Tell me about the team. '')" "''Roughly one million''"
      "take 2 demo_history" "'' Got it. Tell me about the team. ''" "demo_loads (payload [] [])"]
    question_mark_rule [of "''Wow!''" "demo_data [] []"
      "demo_client (Text '' Got it. Tell me about the team. '')" "''Roughly one million''"
      "take 2 demo_history" "'' Got it. Tell me about the team. ''" "demo_loads (payload [] [])"]
    question_mark_rule [of "''Really? Go on.''" "demo_data [] []"
      "demo_client (Text '' Got it. Tell me about the team. '')" "''Roughly one million''"
      "take 2 demo_history" "'' Got it. Tell me about the team. ''" "demo_loads (payload [] [])"]
  by (simp add: chat_defs demo_defs all_issue_fields_def keys_def strip_def isspace_def)

section \<open>Closing mode\<close>

text \<open>
  C8. The turn is in closing mode exactly when still_needed is empty. In closing mode the
  closing prompt is sent and the stripped reply is returned without the question-mark
  rule; otherwise the continuation prompt is sent and the rule is applied.
\<close>

theorem closing_mode_trigger:
  "(will_be_closing iss g c \<longleftrightarrow> still_needed iss g c = [])
 \<and> (closing d \<longleftrightarrow>
       still_needed (get_issues d) (get_gathered_info d) (get_cannot_answer_fields d) = [])
 \<and> (closing d \<longrightarrow> is_ClosingPrompt (chat_prompt d um h)
       \<and> (client (chat_prompt d um h) = Text t \<and> strip t \<noteq> []
            \<longrightarrow> chat_result.message (chat_with_founder client loads d um h) = strip t))
 \<and> (\<not> closing d \<longrightarrow> is_ContinuationPrompt (chat_prompt d um h)
       \<and> (client (chat_prompt d um h) = Text t \<and> strip t \<noteq> []
            \<longrightarrow> chat_result.message (chat_with_founder client loads d um h)
                  = ensure_question (strip t)))"
proof -
  have a: "will_be_closing iss g c \<longleftrightarrow> still_needed iss g c = []" for iss g c
    by (simp add: will_be_closing_def)
  have b: "closing d \<longleftrightarrow>
       still_needed (get_issues d) (get_gathered_info d) (get_cannot_answer_fields d) = []"
    unfolding closing_def by (rule a)
  have m: "chat_result.message (chat_with_founder client loads d um h)
             = (if closing d then strip t else ensure_question (strip t))"
    if "client (chat_prompt d um h) = Text t" "strip t \<noteq> []"
    using that generate_reply_text [of client d um h t] by (simp add: chat_message)
  have mc: "chat_result.message (chat_with_founder client loads d um h) = strip t"
    if "closing d" "client (chat_prompt d um h) = Text t" "strip t \<noteq> []"
    using that m by simp
  have mn: "chat_result.message (chat_with_founder client loads d um h) = ensure_question (strip t)"
    if "\<not> closing d" "client (chat_prompt d um h) = Text t" "strip t \<noteq> []"
    using that m by simp
  show ?thesis
    using a [of iss g c] b mc mn chat_prompt_mode [of d um h] by blast
qed

theorem closing_mode_trigger_witness:
  "closing (demo_data [(''revenue'', answer ''1M'' ''high'')] [''team_size''])
 \<and> chat_result.message
       (chat_with_founder (demo_client (Text ''Thank you for your time.''))
          (demo_loads (payload [] [])) (demo_data [(''revenue'', answer ''1M'' ''high'')] [''team_size''])
          ''I do not know'' demo_history)
     = ''Thank you for your time.''
 \<and> \<not> closing (demo_data [(''revenue'', answer ''1M'' ''high'')] [])
 \<and> chat_result.message
       (chat_with_founder (demo_client (Text ''Thank you for your time.''))
          (demo_loads (payload [] [])) (demo_data [(''revenue'', answer ''1M'' ''high'')] [])
          ''I do not know'' demo_history)
     = ''Thank you for your time?''"
  using closing_mode_trigger [of demo_issues "[(''revenue'', answer ''1M'' ''high'')]" "[''team_size'']"
      "demo_data [(''revenue'', answer ''1M'' ''high'')] [''team_size'']" "''I do not know''" demo_history
      "demo_client (Text ''Thank you for your time.'')" "''Thank you for your time.''"
      "demo_loads (payload [] [])"]
    closing_mode_trigger [of demo_issues "[(''revenue'', answer ''1M'' ''high'')]" "[]"
      "demo_data [(''revenue'', answer ''1M'' ''high'')] []" "''I do not know''" demo_history
      "demo_client (Text ''Thank you for your time.'')" "''Thank you for your time.''"
      "demo_loads (payload [] [])"]
  by (simp add: chat_defs demo_defs all_issue_fields_def keys_def strip_def isspace_def)

section \<open>New cannot-answer fields\<close>

text \<open>
  C9. After a successful extraction the returned cannot-answer list is the list declared
  in this turn's extraction result, filtered to exact catalog fields; it does not depend on
  the cannot-answer fields that existed before the turn.
\<close>

theorem new_cannot_answer_only:
  assumes users: "2 \<le> length (filter (\<lambda>m. role m = ''user'') h)"
      and ok: "extract_try client loads iss g existing h = Inr r"
  shows "analyze_and_extract client loads iss g existing h = r
       \<and> (\<exists>t result declared.
             client (analysis_prompt iss g h) = Text t
           \<and> loads (strip t) = Some (JObj result)
           \<and> py_iter (dict_get result ''cannot_answer'' (JArr [])) = Inr declared
           \<and> completion_check.cannot_answer_fields r = catalog_matches (all_issue_fields iss) declared
           \<and> set (completion_check.cannot_answer_fields r)
               = {s. s \<in> set (all_issue_fields iss) \<and> JStr s \<in> set declared})
       \<and> (\<forall>existing'.
             completion_check.cannot_answer_fields (analyze_and_extract client loads iss g existing' h)
               = completion_check.cannot_answer_fields r)"
proof -
  have a: "analyze_and_extract client loads iss g existing h = r"
    using users ok by (simp add: analyze_and_extract_def Let_def)
  have b: "\<exists>t result declared.
             client (analysis_prompt iss g h) = Text t
           \<and> loads (strip t) = Some (JObj result)
           \<and> py_iter (dict_get result ''cannot_answer'' (JArr [])) = Inr declared
           \<and> completion_check.cannot_answer_fields r = catalog_matches (all_issue_fields iss) declared
           \<and> set (completion_check.cannot_answer_fields r)
               = {s. s \<in> set (all_issue_fields iss) \<and> JStr s \<in> set declared}"
  proof -
    from extract_try_Inr [OF ok] obtain t result declared where
      "client (analysis_prompt iss g h) = Text t"
      "loads (strip t) = Some (JObj result)"
      "py_iter (dict_get result ''cannot_answer'' (JArr [])) = Inr declared"
      "completion_check.cannot_answer_fields r = catalog_matches (all_issue_fields iss) declared"
      by blast
    then show ?thesis by (simp add: catalog_matches_set)
  qed
  have c: "completion_check.cannot_answer_fields (analyze_and_extract client loads iss g existing' h)
               = completion_check.cannot_answer_fields r" for existing'
  proof -
    from extract_try_existing [OF ok, of existing'] obtain r' where
      "extract_try client loads iss g existing' h = Inr r'"
      "completion_check.cannot_answer_fields r' = completion_check.cannot_answer_fields r" by blast
    with users show ?thesis by (simp add: analyze_and_extract_def Let_def)
  qed
  from a b c show ?thesis by blast
qed

theorem new_cannot_answer_only_witness:
  "2 \<le> length (filter (\<lambda>m. role m = ''user'') demo_history)
 \<and> completion_check.cannot_answer_fields
       (analyze_and_extract (demo_client Raises)
          (demo_loads (payload [] [JStr ''revenue'', JStr ''burn'', JNum 3]))
          demo_issues [] [''team_size''] demo_history) = [''revenue'']
 \<and> completion_check.cannot_answer_fields
       (analyze_and_extract (demo_client Raises)
          (demo_loads (payload [] [JStr ''revenue'', JStr ''burn'', JNum 3]))
          demo_issues [] [] demo_history) = [''revenue'']"
proof -
  have users: "2 \<le> length (filter (\<lambda>m. role m = ''user'') demo_history)"
    by (simp add: demo_history_def)
  have ok: "extract_try (demo_client Raises)
          (demo_loads (payload [] [JStr ''revenue'', JStr ''burn'', JNum 3]))
          demo_issues [] [''team_size''] demo_history
      = Inr \<lparr>completion_check.is_complete = True, completion_check.gathered_info = [],
             still_pending = [''revenue''], completion_check.cannot_answer_fields = [''revenue'']\<rparr>"
    by (simp add: model_defs demo_defs Let_def)
  show ?thesis
    using users new_cannot_answer_only [OF users ok] by simp
qed

section \<open>Fallback reply in continuation mode\<close>

text \<open>
  C10. When generation fails in continuation mode, the reply is the acknowledgment
  \<open>Thanks for sharing! \<close> followed by the question of the first still_needed issue, word
  for word; the question-mark rule is not applied, so the reply ends in a question mark
  only if that question does.
\<close>

theorem continuation_fallback_reply:
  assumes cont: "\<not> closing d"
      and gen: "generation_failed (client (chat_prompt d um h))"
  shows "(\<exists>i rest. still_needed (get_issues d) (get_gathered_info d) (get_cannot_answer_fields d) = i # rest
            \<and> chat_result.message (chat_with_founder client loads d um h)
                = ''Thanks for sharing! '' @ question i
            \<and> (endswith (chat_result.message (chat_with_founder client loads d um h)) ''?''
                 \<longleftrightarrow> endswith (question i) ''?''))"
proof -
  from gen obtain e where e: "generate_reply client d um h = Inl e"
    using generation_failed_Inl [of client d um h] by blast
  from cont obtain i rest where
    s: "still_needed (get_issues d) (get_gathered_info d) (get_cannot_answer_fields d) = i # rest"
    by (cases "still_needed (get_issues d) (get_gathered_info d) (get_cannot_answer_fields d)")
       (auto simp add: closing_def will_be_closing_def)
  have m: "chat_result.message (chat_with_founder client loads d um h)
             = ''Thanks for sharing! '' @ question i"
    using e s cont by (simp add: chat_message fallback_message_def Let_def)
  show ?thesis using s m endswith_append_q by auto
qed

theorem continuation_fallback_reply_witness:
  "\<not> closing (demo_data [(''revenue'', answer ''1M'' ''high'')] [])
 \<and> chat_result.message
       (chat_with_founder (demo_client NoText) (demo_loads (payload [] []))
          (demo_data [(''revenue'', answer ''1M'' ''high'')] []) ''Roughly one million''
          (take 2 demo_history))
     = ''Thanks for sharing! Tell me how large the team is''
 \<and> \<not> endswith (chat_result.message
       (chat_with_founder (demo_client NoText) (demo_loads (payload [] []))
          (demo_data [(''revenue'', answer ''1M'' ''high'')] []) ''Roughly one million''
          (take 2 demo_history))) ''?''"
proof -
  have cont: "\<not> closing (demo_data [(''revenue'', answer ''1M'' ''high'')] [])"
    by (simp add: chat_defs demo_defs all_issue_fields_def keys_def)
  have gen: "generation_failed (demo_client NoText
      (chat_prompt (demo_data [(''revenue'', answer ''1M'' ''high'')] []) ''Roughly one million''
         (take 2 demo_history)))"
    by (simp add: chat_defs demo_defs all_issue_fields_def keys_def)
  have s: "still_needed (get_issues (demo_data [(''revenue'', answer ''1M'' ''high'')] []))
             (get_gathered_info (demo_data [(''revenue'', answer ''1M'' ''high'')] []))
             (get_cannot_answer_fields (demo_data [(''revenue'', answer ''1M'' ''high'')] []))
           = [mk_issue ''team_size'' ''Tell me how large the team is'']"
    by (simp add: chat_defs demo_defs all_issue_fields_def keys_def)
  show ?thesis
    using cont gen s
      continuation_fallback_reply [of "demo_data [(''revenue'', answer ''1M'' ''high'')] []"
        "demo_client NoText" "''Roughly one million''" "take 2 demo_history"
        "demo_loads (payload [] [])"]
    by (simp add: mk_issue_def endswith_def)
qed

end
